theory Spec2Isabelle
  imports Complex_Main
begin

section \<open>JavaScript values and library functions used by the services\<close>

text \<open>
  JavaScript numbers are modelled as real numbers, strings as lists of characters
  (texts are taken to be ASCII, so that \<open>toLowerCase\<close> only changes \<open>A-Z\<close>), arrays
  as lists. A value that may be \<open>undefined\<close> or \<open>null\<close> is an \<open>option\<close>.
\<close>

subsection \<open>Strings\<close>

definition toLowerCase :: "string \<Rightarrow> string" where
  "toLowerCase s =
     map (\<lambda>c. case map_of (zip ''ABCDEFGHIJKLMNOPQRSTUVWXYZ'' ''abcdefghijklmnopqrstuvwxyz'') c of
                 Some d \<Rightarrow> d | None \<Rightarrow> c) s"




text \<open>
  The white space class \<open>\s\<close> restricted to ASCII. \<open>s.split(r)\<close> for an
  expression \<open>r\<close> that matches the non-empty runs of a character class (\<open>/\s+/\<close>,
  \<open>/[.!?]+/\<close>): the pieces between maximal runs, with an empty first (last) piece when
  the string starts (ends) with a run, and \<open>[""]\<close> for the empty string.
\<close>

definition is_space :: "char \<Rightarrow> bool" where
  "is_space c = (c \<in> set [CHR 0x09, CHR 0x0A, CHR 0x0B, CHR 0x0C, CHR 0x0D, CHR '' ''])"

fun split_runs_from :: "(char \<Rightarrow> bool) \<Rightarrow> string \<Rightarrow> bool \<Rightarrow> string \<Rightarrow> string list" where
  "split_runs_from sep cur in_sep [] = [rev cur]"
| "split_runs_from sep cur in_sep (c # s) =
     (if sep c
      then (if in_sep then split_runs_from sep [] True s
            else rev cur # split_runs_from sep [] True s)
      else split_runs_from sep (c # cur) False s)"

definition split_runs :: "(char \<Rightarrow> bool) \<Rightarrow> string \<Rightarrow> string list" where
  "split_runs sep s = split_runs_from sep [] False s"

definition split_ws :: "string \<Rightarrow> string list" where
  "split_ws s = split_runs is_space s"



text \<open>
  \<open>new Set(xs)\<close>: the distinct elements of \<open>xs\<close> in the order of their first
  occurrence; \<open>.size\<close> is the length of that list and \<open>.has(x)\<close> membership.
\<close>

definition js_set :: "'a list \<Rightarrow> 'a list" where
  "js_set xs = rev (remdups (rev xs))"

subsection \<open>Regular expressions\<close>



















section \<open>Data model (src/lib/types/memory.ts)\<close>

text \<open>
  Fields of different interfaces that share a name carry a prefix (\<open>rv_\<close> for
  RedisVectorPoint, \<open>qm_\<close> for QdrantMemoryPoint, \<open>sd_\<close> for RedisSessionData), and the
  field \<open>text\<close> of a message is \<open>msg_text\<close>.
\<close>

datatype MessageRole = RoleUser | RoleAssistant | RoleSystem

record Message =
  ts :: real
  role :: MessageRole
  msg_text :: string
  summary :: string



record RedisSessionData =
  messages :: "Message list"
  sd_intent_vector :: "real list"
  frustration_level :: real

record RedisVectorPoint =
  session_id :: string
  rv_pseudo_user_id :: string
  rv_channel :: string
  rv_intent_vector :: "real list"
  rv_frustration_vector :: "real list"
  rv_product_vector :: "real list"
  timestamp :: real

record QdrantMemoryPoint =
  qm_pseudo_user_id :: string
  qm_summary :: string
  qm_intent_vector :: "real list"
  tone_vector :: "real list"
  qm_product_vector :: "real list"
  entities :: "string list"
  last_seen :: real

record LinkedSession =
  channel :: string
  channel_user_id :: string
  confidence :: real

record IdentityMapEntry =
  pseudo_user_id :: string
  linked_sessions :: "LinkedSession list"
  updated_at :: int




section \<open>Identity linker (src/lib/services/identity-linker.ts)\<close>



subsection \<open>generatePseudoUserId\<close>







subsection \<open>cosineSimilarity and calculateVectorSimilarity\<close>





subsection \<open>calculateMetadataSimilarity\<close>




subsection \<open>analyzeWritingStyle and calculateBehaviorSimilarity\<close>






subsection \<open>extractIdentifiers and calculateIdentifierOverlap\<close>







subsection \<open>findExistingPseudoUserId and linkIdentity\<close>




subsection \<open>linkIdentityToMap\<close>

text \<open>
  The identity map is a collection of documents in insertion order. \<open>findOne\<close> returns the
  first document that the filter accepts, \<open>updateOne\<close> changes that document and
  \<open>insertOne\<close> adds one at the end. \<open>hashIdentifier\<close> (SHA-256, a library call) and the
  clock are parameters.
\<close>

type_synonym identity_map = "IdentityMapEntry list"

definition findOne :: "string \<Rightarrow> identity_map \<Rightarrow> IdentityMapEntry option" where
  "findOne pseudoUserId coll = find (\<lambda>e. pseudo_user_id e = pseudoUserId) coll"

fun updateOne ::
  "string \<Rightarrow> (IdentityMapEntry \<Rightarrow> IdentityMapEntry) \<Rightarrow> identity_map \<Rightarrow> identity_map" where
  "updateOne pseudoUserId upd [] = []"
| "updateOne pseudoUserId upd (e # es) =
     (if pseudo_user_id e = pseudoUserId then upd e # es else e # updateOne pseudoUserId upd es)"

definition insertOne :: "IdentityMapEntry \<Rightarrow> identity_map \<Rightarrow> identity_map" where
  "insertOne e coll = coll @ [e]"

text \<open>\<open>xs.findIndex(p)\<close>, with \<open>None\<close> for \<open>-1\<close>.\<close>

fun findIndex :: "('a \<Rightarrow> bool) \<Rightarrow> 'a list \<Rightarrow> nat option" where
  "findIndex p [] = None"
| "findIndex p (x # xs) =
     (if p x then Some 0 else map_option Suc (findIndex p xs))"

definition link_sessions ::
  "LinkedSession list \<Rightarrow> string \<Rightarrow> string \<Rightarrow> real \<Rightarrow> LinkedSession list" where
  "link_sessions linkedSessions ch hashedChannelUserId conf =
     (case findIndex (\<lambda>session. channel session = ch \<and>
                                 channel_user_id session = hashedChannelUserId) linkedSessions of
        Some existingIndex \<Rightarrow>
          if conf > confidence (linkedSessions ! existingIndex)
          then linkedSessions[existingIndex := (linkedSessions ! existingIndex)\<lparr>confidence := conf\<rparr>]
          else linkedSessions
      | None \<Rightarrow>
          linkedSessions @
            [\<lparr>channel = ch, channel_user_id = hashedChannelUserId, confidence = conf\<rparr>])"

text \<open>The \<open>try\<close> block, all collection operations succeeding.\<close>

definition linkIdentityToMap_try ::
  "(string \<Rightarrow> string) \<Rightarrow> int \<Rightarrow> identity_map \<Rightarrow> string \<Rightarrow> string \<Rightarrow> string \<Rightarrow> real \<Rightarrow>
   identity_map" where
  "linkIdentityToMap_try hashIdentifier now coll pseudoUserId ch channelUserId conf =
     (let hashedChannelUserId = hashIdentifier channelUserId
      in case findOne pseudoUserId coll of
           Some existing \<Rightarrow>
             updateOne pseudoUserId
               (\<lambda>e. e\<lparr>linked_sessions :=
                         link_sessions (linked_sessions existing) ch hashedChannelUserId conf,
                       updated_at := now\<rparr>) coll
         | None \<Rightarrow>
             insertOne
               \<lparr>pseudo_user_id = pseudoUserId,
                linked_sessions =
                  [\<lparr>channel = ch, channel_user_id = hashedChannelUserId, confidence = conf\<rparr>],
                updated_at = now\<rparr> coll)"

text \<open>
  \<open>linkIdentityToMap\<close>: when a collection operation throws (\<open>store_fails\<close>), the
  \<open>catch\<close> branch logs and the call returns normally, the collection as it was.
\<close>

definition linkIdentityToMap ::
  "(string \<Rightarrow> string) \<Rightarrow> int \<Rightarrow> bool \<Rightarrow> identity_map \<Rightarrow> string \<Rightarrow> string \<Rightarrow> string \<Rightarrow> real \<Rightarrow>
   identity_map" where
  "linkIdentityToMap hashIdentifier now store_fails coll pseudoUserId ch channelUserId conf =
     (if store_fails then coll
      else linkIdentityToMap_try hashIdentifier now coll pseudoUserId ch channelUserId conf)"

section \<open>Urgency predictor (urgency-predictor, in src/lib/services/memory-storage.ts)\<close>






definition word_overlap_above :: "real \<Rightarrow> string \<Rightarrow> string \<Rightarrow> bool" where
  "word_overlap_above threshold text1 text2 =
     (let words1 = js_set (split_ws (toLowerCase text1));
          words2 = js_set (split_ws (toLowerCase text2));
          intersection = js_set (filter (\<lambda>w. w \<in> set words2) words1);
          union = js_set (words1 @ words2)
      in length union > 0 \<and> real (length intersection) / real (length union) > threshold)"










section \<open>Problem extractor (src/lib/services/problem-extractor.ts)\<close>










definition isSimilarProblem :: "string \<Rightarrow> string \<Rightarrow> bool" where
  "isSimilarProblem text1 text2 = word_overlap_above 0.4 text1 text2"





definition countProblemOccurrences ::
  "string \<Rightarrow> RedisSessionData option \<Rightarrow> QdrantMemoryPoint list \<Rightarrow> nat" where
  "countProblemOccurrences problemSummary shortTermMemory longTermMemories =
     (let count0 = 1;
          count1 = (case shortTermMemory of
                      Some stm \<Rightarrow>
                        count0 + length (filter (\<lambda>msg. isSimilarProblem (msg_text msg) problemSummary)
                                                (messages stm))
                    | None \<Rightarrow> count0);
          similarHistorical =
            length (filter (\<lambda>mem. isSimilarProblem (qm_summary mem) problemSummary)
                           longTermMemories)
      in count1 + similarHistorical)"

section \<open>Memory storage (src/lib/services/memory-storage.ts)\<close>

text \<open>
  A computation that may throw returns \<open>Inl\<close> of the thrown value. The store clients are
  the answers of the stores: each operation of a client either throws or returns. Logging
  and the timing of the SLA warnings have no part in the results.
\<close>

datatype storage_type = Redis | Qdrant | Mongodb

datatype thrown =
    JsError string
  | NonError string
  | StorageError string storage_type

text \<open>\<open>error instanceof Error ? error.message : String(error)\<close>.\<close>

fun error_text :: "thrown \<Rightarrow> string" where
  "error_text (JsError m) = m"
| "error_text (StorageError m st) = m"
| "error_text (NonError s) = s"

definition try_catch :: "thrown + 'a \<Rightarrow> (thrown \<Rightarrow> thrown + 'a) \<Rightarrow> thrown + 'a" where
  "try_catch body handler = (case body of Inl e \<Rightarrow> handler e | Inr v \<Rightarrow> Inr v)"

definition and_then :: "thrown + 'a \<Rightarrow> ('a \<Rightarrow> thrown + 'b) \<Rightarrow> thrown + 'b" where
  "and_then m f = (case m of Inl e \<Rightarrow> Inl e | Inr v \<Rightarrow> f v)"

definition REDIS_TTL_SECONDS :: nat where
  "REDIS_TTL_SECONDS = 48 * 60 * 60"

record RedisClient =
  redis_set :: "string \<Rightarrow> string \<Rightarrow> nat \<Rightarrow> thrown + unit"
  redis_get :: "string \<Rightarrow> thrown + string option"

record VectorMetadata =
  vm_session_id :: string
  vm_pseudo_user_id :: string
  vm_channel :: string
  vm_frustration_vector :: "real list"
  vm_product_vector :: "real list"
  vm_timestamp :: real

record VectorUpsert =
  vu_id :: string
  vu_vector :: "real list"
  vu_metadata :: VectorMetadata

record VectorIndex =
  vector_upsert :: "VectorUpsert \<Rightarrow> thrown + unit"
  vector_query :: "real list \<Rightarrow> nat \<Rightarrow> thrown + VectorMetadata option list"

record QdrantPayload =
  qp_pseudo_user_id :: string
  qp_summary :: string
  qp_entities :: "string list"
  qp_last_seen :: real
  qp_tone_vector :: "real list"
  qp_product_vector :: "real list"

record QdrantUpsertPoint =
  qu_id :: string
  qu_vector :: "real list"
  qu_payload :: QdrantPayload

record QdrantClient =
  qdrant_upsert :: "string \<Rightarrow> QdrantUpsertPoint list \<Rightarrow> thrown + unit"
  qdrant_search :: "string \<Rightarrow> real list \<Rightarrow> nat \<Rightarrow> thrown + QdrantPayload list"

text \<open>
  The writes. \<open>getRedisClient\<close>, \<open>getVectorIndex\<close> and \<open>getQdrantClient\<close> are called
  inside the \<open>try\<close> block and may throw themselves; \<open>JSON.stringify\<close> and the
  printing of a number are parameters.
\<close>

definition storeShortTermMemory ::
  "(thrown + RedisClient) \<Rightarrow> (RedisSessionData \<Rightarrow> string) \<Rightarrow> string \<Rightarrow> RedisSessionData \<Rightarrow>
   thrown + unit" where
  "storeShortTermMemory getRedisClient stringify sessionId sessionData =
     try_catch
       (and_then getRedisClient (\<lambda>client.
          let key = sessionId
          in redis_set client key (stringify sessionData) REDIS_TTL_SECONDS))
       (\<lambda>error. Inl (StorageError (''Failed to store short-term memory: '' @ error_text error)
                                    Redis))"

definition getVectorKey :: "string \<Rightarrow> string" where
  "getVectorKey sessionId = ''vector:'' @ sessionId"

text \<open>The object that \<open>storeShortTermVector\<close> passes to \<open>vectorIndex.upsert\<close>.\<close>

definition vector_upsert_request :: "RedisVectorPoint \<Rightarrow> VectorUpsert" where
  "vector_upsert_request vectorData =
     (let id' = getVectorKey (session_id vectorData)
      in \<lparr>vu_id = id',
          vu_vector = rv_intent_vector vectorData,
          vu_metadata =
            \<lparr>vm_session_id = session_id vectorData,
             vm_pseudo_user_id = rv_pseudo_user_id vectorData,
             vm_channel = rv_channel vectorData,
             vm_frustration_vector = rv_frustration_vector vectorData,
             vm_product_vector = rv_product_vector vectorData,
             vm_timestamp = timestamp vectorData\<rparr>\<rparr>)"

definition storeShortTermVector ::
  "(thrown + VectorIndex) \<Rightarrow> RedisVectorPoint \<Rightarrow> thrown + unit" where
  "storeShortTermVector getVectorIndex vectorData =
     try_catch
       (and_then getVectorIndex (\<lambda>vectorIndex.
          vector_upsert vectorIndex (vector_upsert_request vectorData)))
       (\<lambda>error. Inl (StorageError (''Failed to store short-term vector: '' @ error_text error)
                                    Redis))"

text \<open>
  \<open>storeLongTermMemory\<close> takes the memory point without its \<open>pseudo_user_id\<close>: the
  field \<open>qm_pseudo_user_id\<close> of the argument is not read. \<open>long_term_point\<close> is the
  constant \<open>point\<close> of the source.
\<close>

definition long_term_point :: "(real \<Rightarrow> string) \<Rightarrow> string \<Rightarrow> QdrantMemoryPoint \<Rightarrow> QdrantUpsertPoint" where
  "long_term_point show_number pseudoUserId memoryPoint =
     \<lparr>qu_id = pseudoUserId @ ''-'' @ show_number (last_seen memoryPoint),
      qu_vector = qm_intent_vector memoryPoint,
      qu_payload =
        \<lparr>qp_pseudo_user_id = pseudoUserId,
         qp_summary = qm_summary memoryPoint,
         qp_entities = entities memoryPoint,
         qp_last_seen = last_seen memoryPoint,
         qp_tone_vector = tone_vector memoryPoint,
         qp_product_vector = qm_product_vector memoryPoint\<rparr>\<rparr>"

definition storeLongTermMemory ::
  "(thrown + QdrantClient) \<Rightarrow> (real \<Rightarrow> string) \<Rightarrow> string \<Rightarrow> QdrantMemoryPoint \<Rightarrow>
   thrown + unit" where
  "storeLongTermMemory getQdrantClient show_number pseudoUserId memoryPoint =
     try_catch
       (and_then getQdrantClient (\<lambda>client.
          let collectionName = ''long_memory'';
              point = long_term_point show_number pseudoUserId memoryPoint
          in qdrant_upsert client collectionName [point]))
       (\<lambda>error. Inl (StorageError (''Failed to store long-term memory: '' @ error_text error)
                                    Qdrant))"

text \<open>
  The reads. \<open>JSON.parse\<close> is a parameter and may throw. A query result without metadata
  makes the mapping function throw a \<open>TypeError\<close>, inside the \<open>try\<close> block. The search
  results of Qdrant carry their payload (\<open>with_payload: true\<close>).
\<close>

definition retrieveShortTermMemory ::
  "(thrown + RedisClient) \<Rightarrow> (string \<Rightarrow> thrown + RedisSessionData) \<Rightarrow> string \<Rightarrow>
   thrown + RedisSessionData option" where
  "retrieveShortTermMemory getRedisClient parse sessionId =
     try_catch
       (and_then getRedisClient (\<lambda>client.
          let key = sessionId
          in and_then (redis_get client key) (\<lambda>data.
               case data of
                 None \<Rightarrow> Inr None
               | Some d \<Rightarrow> if d = [] then Inr None
                           else and_then (parse d) (\<lambda>v. Inr (Some v)))))
       (\<lambda>error. Inr None)"

fun map_results :: "('a \<Rightarrow> thrown + 'b) \<Rightarrow> 'a list \<Rightarrow> thrown + 'b list" where
  "map_results f [] = Inr []"
| "map_results f (x # xs) =
     and_then (f x) (\<lambda>y. and_then (map_results f xs) (\<lambda>ys. Inr (y # ys)))"

definition retrieveRelevantVectors ::
  "(thrown + VectorIndex) \<Rightarrow> real list \<Rightarrow> nat \<Rightarrow> thrown + RedisVectorPoint list" where
  "retrieveRelevantVectors getVectorIndex queryVector limit =
     try_catch
       (and_then getVectorIndex (\<lambda>vectorIndex.
          and_then (vector_query vectorIndex queryVector limit) (\<lambda>results.
            and_then
              (map_results
                 (\<lambda>result. case result of
                      None \<Rightarrow> Inl (JsError ''Cannot read properties of undefined'')
                    | Some metadata \<Rightarrow>
                        Inr \<lparr>session_id = vm_session_id metadata,
                             rv_pseudo_user_id = vm_pseudo_user_id metadata,
                             rv_channel = vm_channel metadata,
                             rv_intent_vector = queryVector,
                             rv_frustration_vector = vm_frustration_vector metadata,
                             rv_product_vector = vm_product_vector metadata,
                             timestamp = vm_timestamp metadata\<rparr>)
                 results)
              (\<lambda>vectors. Inr (sort_key (\<lambda>v. - timestamp v) vectors)))))
       (\<lambda>error. Inr [])"

definition retrieveLongTermMemory ::
  "(thrown + QdrantClient) \<Rightarrow> real list \<Rightarrow> nat \<Rightarrow> thrown + QdrantMemoryPoint list" where
  "retrieveLongTermMemory getQdrantClient queryVector limit =
     try_catch
       (and_then getQdrantClient (\<lambda>client.
          let collectionName = ''long_memory''
          in and_then (qdrant_search client collectionName queryVector limit) (\<lambda>results.
               Inr (map (\<lambda>payload.
                           \<lparr>qm_pseudo_user_id = qp_pseudo_user_id payload,
                            qm_summary = qp_summary payload,
                            qm_intent_vector = queryVector,
                            tone_vector = qp_tone_vector payload,
                            qm_product_vector = qp_product_vector payload,
                            entities = qp_entities payload,
                            last_seen = qp_last_seen payload\<rparr>)
                        results))))
       (\<lambda>error. Inr [])"

section \<open>The reads of the two pipelines\<close>

text \<open>
  The order in which the store route (src/app/api/memory/store/route.ts, steps 3 and 4)
  and \<open>retrieveUnifiedMemory\<close> (src/lib/services/memory-retrieval.ts) issue the three
  reads and wait for them. \<open>const x = await f()\<close> issues the call and waits for it
  before the next statement runs; \<open>const p = f()\<close> only issues it;
  \<open>await Promise.all([p, q, r])\<close> waits for all of them.
\<close>

datatype store_read = ShortTermGet | ShortTermVectorQuery | LongTermVectorQuery

datatype async_stmt = AwaitCall store_read | StartCall store_read | AwaitAll "store_read list"

datatype read_event = Issued store_read | Completed store_read

fun stmt_events :: "async_stmt \<Rightarrow> read_event list" where
  "stmt_events (AwaitCall r) = [Issued r, Completed r]"
| "stmt_events (StartCall r) = [Issued r]"
| "stmt_events (AwaitAll rs) = map Completed rs"

definition run_events :: "async_stmt list \<Rightarrow> read_event list" where
  "run_events prog = concat (map stmt_events prog)"

definition store_route_reads :: "async_stmt list" where
  "store_route_reads =
     [AwaitCall ShortTermGet, AwaitCall ShortTermVectorQuery, AwaitCall LongTermVectorQuery]"

definition retrieveUnifiedMemory_reads :: "async_stmt list" where
  "retrieveUnifiedMemory_reads =
     [StartCall ShortTermGet, StartCall ShortTermVectorQuery, StartCall LongTermVectorQuery,
      AwaitAll [ShortTermGet, ShortTermVectorQuery, LongTermVectorQuery]]"

section \<open>Notions used in the statements\<close>

subsection \<open>Vectors\<close>




subsection \<open>Pseudo user ids\<close>









subsection \<open>Identity map\<close>

definition same_pair :: "string \<Rightarrow> string \<Rightarrow> LinkedSession \<Rightarrow> bool" where
  "same_pair ch h session = (channel session = ch \<and> channel_user_id session = h)"

definition link_keys :: "IdentityMapEntry \<Rightarrow> (string \<times> string) list" where
  "link_keys e = map (\<lambda>session. (channel session, channel_user_id session)) (linked_sessions e)"

text \<open>Within every entry, no pair is linked twice.\<close>

definition links_unique :: "identity_map \<Rightarrow> bool" where
  "links_unique coll = list_all (\<lambda>e. distinct (link_keys e)) coll"

text \<open>
  The links of a pair under a pseudo user id (in the entry that \<open>findOne\<close> returns), the
  confidence of the first of them, and the links of a pair in the whole map.
\<close>

definition links_of :: "identity_map \<Rightarrow> string \<Rightarrow> string \<Rightarrow> string \<Rightarrow> LinkedSession list" where
  "links_of coll pseudoUserId ch h =
     (case findOne pseudoUserId coll of
        None \<Rightarrow> []
      | Some e \<Rightarrow> filter (same_pair ch h) (linked_sessions e))"

definition link_confidence :: "identity_map \<Rightarrow> string \<Rightarrow> string \<Rightarrow> string \<Rightarrow> real option" where
  "link_confidence coll pseudoUserId ch h =
     (case links_of coll pseudoUserId ch h of [] \<Rightarrow> None | session # _ \<Rightarrow> Some (confidence session))"

definition pair_occurrences :: "identity_map \<Rightarrow> string \<Rightarrow> string \<Rightarrow> nat" where
  "pair_occurrences coll ch h =
     length (filter (same_pair ch h) (concat (map linked_sessions coll)))"

subsection \<open>Identity map: auxiliary notions\<close>

text \<open>
  The link operation on a list of linked sessions, written as a recursion over the list
  (shown equal to \<open>link_sessions\<close> below), the linked sessions under a pseudo user id,
  and the hash function that the tests of the repository put in place of SHA-256.
\<close>

definition new_link :: "string \<Rightarrow> string \<Rightarrow> real \<Rightarrow> LinkedSession" where
  "new_link ch h conf = \<lparr>channel = ch, channel_user_id = h, confidence = conf\<rparr>"

definition raise_confidence :: "real \<Rightarrow> LinkedSession \<Rightarrow> LinkedSession" where
  "raise_confidence conf session =
     (if conf > confidence session then session\<lparr>confidence := conf\<rparr> else session)"

fun upsert_link :: "LinkedSession list \<Rightarrow> string \<Rightarrow> string \<Rightarrow> real \<Rightarrow> LinkedSession list" where
  "upsert_link [] ch h conf = [new_link ch h conf]"
| "upsert_link (session # rest) ch h conf =
     (if same_pair ch h session then raise_confidence conf session # rest
      else session # upsert_link rest ch h conf)"

definition sessions_of :: "identity_map \<Rightarrow> string \<Rightarrow> LinkedSession list" where
  "sessions_of coll pseudoUserId =
     (case findOne pseudoUserId coll of None \<Rightarrow> [] | Some e \<Rightarrow> linked_sessions e)"

definition test_hash :: "string \<Rightarrow> string" where
  "test_hash s = ''hashed_'' @ s"

subsection \<open>Urgency\<close>


subsection \<open>Criticality\<close>



subsection \<open>Reads issued without waiting\<close>

text \<open>
  All three reads are issued before the pipeline waits for any of them, and the pipeline
  has waited for all three at the end.
\<close>

definition is_issue :: "read_event \<Rightarrow> bool" where
  "is_issue ev = (case ev of Issued r \<Rightarrow> True | Completed r \<Rightarrow> False)"

definition all_reads :: "store_read list" where
  "all_reads = [ShortTermGet, ShortTermVectorQuery, LongTermVectorQuery]"

definition reads_overlap :: "read_event list \<Rightarrow> bool" where
  "reads_overlap evs =
     (list_all (\<lambda>r. Issued r \<in> set (takeWhile is_issue evs)) all_reads \<and>
      list_all (\<lambda>r. Completed r \<in> set evs) all_reads)"

subsection \<open>Example inputs\<close>







definition weather_memory :: QdrantMemoryPoint where
  "weather_memory =
     \<lparr>qm_pseudo_user_id = ''0369C036-9C03-69C0-369C-0369C0369C03'',
      qm_summary = ''weather forecast'', qm_intent_vector = [1, 0], tone_vector = [0, 0],
      qm_product_vector = [0, 0], entities = [], last_seen = 1735000000\<rparr>"


text \<open>Failing stores and the data written to them.\<close>

definition connection_refused :: thrown where
  "connection_refused = JsError ''connect ECONNREFUSED''"

definition failing_redis :: RedisClient where
  "failing_redis =
     \<lparr>redis_set = (\<lambda>key value ttl. Inl (NonError ''timeout'')),
      redis_get = (\<lambda>key. Inl (NonError ''timeout''))\<rparr>"

definition failing_vector_index :: VectorIndex where
  "failing_vector_index =
     \<lparr>vector_upsert = (\<lambda>request. Inl connection_refused),
      vector_query = (\<lambda>vector topK. Inl connection_refused)\<rparr>"

definition example_session :: RedisSessionData where
  "example_session =
     \<lparr>messages = [], sd_intent_vector = [1, 0], frustration_level = 0\<rparr>"

definition example_vector_point :: RedisVectorPoint where
  "example_vector_point =
     \<lparr>session_id = ''session:web:123'', rv_pseudo_user_id = ''F29219AB-D41F'',
      rv_channel = ''web'', rv_intent_vector = [1, 0], rv_frustration_vector = [0, 0],
      rv_product_vector = [0, 0], timestamp = 1735648392\<rparr>"

definition constant_text :: "string \<Rightarrow> 'a \<Rightarrow> string" where
  "constant_text s x = s"

definition no_parse :: "string \<Rightarrow> thrown + RedisSessionData" where
  "no_parse s = Inl (JsError ''Unexpected token'')"

section \<open>Properties of the similarity signals\<close>

























lemma set_js_set: "set (js_set xs) = set xs"
  by (simp add: js_set_def)









section \<open>Properties of identity resolution\<close>










































section \<open>Properties of the identity map\<close>

lemma link_sessions_upsert: "link_sessions ls ch h conf = upsert_link ls ch h conf"
proof (induction ls)
  case Nil
  then show ?case by (simp add: link_sessions_def new_link_def)
next
  case (Cons s ls)
  show ?case
  proof (cases "same_pair ch h s")
    case True
    then show ?thesis
      by (simp add: link_sessions_def same_pair_def raise_confidence_def)
  next
    case False
    then have ns: "\<not> (channel s = ch \<and> channel_user_id s = h)" by (simp add: same_pair_def)
    show ?thesis
    proof (cases "findIndex (\<lambda>session. channel session = ch \<and> channel_user_id session = h) ls")
      case None
      with Cons ns False show ?thesis by (auto simp add: link_sessions_def)
    next
      case (Some i)
      with Cons ns False show ?thesis by (auto simp add: link_sessions_def)
    qed
  qed
qed

lemma key_raise_confidence:
  "channel (raise_confidence c s) = channel s \<and>
   channel_user_id (raise_confidence c s) = channel_user_id s"
  by (simp add: raise_confidence_def)

lemma same_pair_raise: "same_pair ch h (raise_confidence c s) = same_pair ch h s"
  by (simp add: same_pair_def key_raise_confidence)

lemma set_keys_upsert:
  "set (map (\<lambda>s. (channel s, channel_user_id s)) (upsert_link ls ch h c)) =
   insert (ch, h) (set (map (\<lambda>s. (channel s, channel_user_id s)) ls))"
  by (induction ls) (auto simp: new_link_def same_pair_def key_raise_confidence)

lemma distinct_upsert:
  "distinct (map (\<lambda>s. (channel s, channel_user_id s)) ls) \<Longrightarrow>
   distinct (map (\<lambda>s. (channel s, channel_user_id s)) (upsert_link ls ch h c))"
proof (induction ls)
  case Nil
  then show ?case by simp
next
  case (Cons s ls)
  show ?case
  proof (cases "same_pair ch h s")
    case True
    with Cons.prems show ?thesis by (simp add: key_raise_confidence)
  next
    case False
    then have "(channel s, channel_user_id s) \<noteq> (ch, h)" by (auto simp: same_pair_def)
    with Cons False show ?thesis by (simp add: set_keys_upsert del: set_map)
  qed
qed

lemma filter_upsert_same:
  "filter (same_pair ch h) (upsert_link ls ch h c) =
     (case filter (same_pair ch h) ls of
        [] \<Rightarrow> [new_link ch h c]
      | s # rest \<Rightarrow> raise_confidence c s # rest)"
proof (induction ls)
  case Nil
  then show ?case by (simp add: new_link_def same_pair_def)
next
  case (Cons s ls)
  then show ?case by (simp add: same_pair_raise)
qed

lemma filter_upsert_other:
  "(ch', h') \<noteq> (ch, h) \<Longrightarrow>
   filter (same_pair ch' h') (upsert_link ls ch h c) = filter (same_pair ch' h') ls"
proof (induction ls)
  case Nil
  then show ?case by (auto simp: new_link_def same_pair_def)
next
  case (Cons s ls)
  then show ?case
    by (auto simp: same_pair_raise) (auto simp: same_pair_def raise_confidence_def)
qed

lemma filter_distinct_keys_le1:
  "distinct (map (\<lambda>s. (channel s, channel_user_id s)) ls) \<Longrightarrow>
   length (filter (same_pair ch h) ls) \<le> 1"
proof (induction ls)
  case Nil
  then show ?case by simp
next
  case (Cons s ls)
  show ?case
  proof (cases "same_pair ch h s")
    case True
    then have k: "(channel s, channel_user_id s) = (ch, h)" by (simp add: same_pair_def)
    have "filter (same_pair ch h) ls = []"
    proof (rule ccontr)
      assume "filter (same_pair ch h) ls \<noteq> []"
      then obtain x where "x \<in> set ls" "same_pair ch h x"
        by (metis filter_False)
      then have "(ch, h) \<in> set (map (\<lambda>s. (channel s, channel_user_id s)) ls)"
        by (force simp: same_pair_def)
      with Cons.prems k show False by simp
    qed
    with True show ?thesis by simp
  next
    case False
    with Cons show ?thesis by simp
  qed
qed

lemma findOne_Cons:
  "findOne p (e # es) = (if pseudo_user_id e = p then Some e else findOne p es)"
  by (simp add: findOne_def)

lemma link_try_Cons_other:
  "pseudo_user_id e \<noteq> pid \<Longrightarrow>
   linkIdentityToMap_try hf now (e # es) pid ch u conf =
     e # linkIdentityToMap_try hf now es pid ch u conf"
  by (simp add: linkIdentityToMap_try_def findOne_Cons Let_def insertOne_def
      split: option.split)

lemma sessions_of_link_same:
  "sessions_of (linkIdentityToMap_try hf now coll pid ch u conf) pid =
     upsert_link (sessions_of coll pid) ch (hf u) conf"
proof (induction coll)
  case Nil
  then show ?case
    by (simp add: linkIdentityToMap_try_def sessions_of_def findOne_def insertOne_def
        new_link_def)
next
  case (Cons e es)
  show ?case
  proof (cases "pseudo_user_id e = pid")
    case True
    then show ?thesis
      by (simp add: linkIdentityToMap_try_def sessions_of_def findOne_Cons Let_def
          link_sessions_upsert)
  next
    case False
    then show ?thesis
      using Cons by (simp add: link_try_Cons_other sessions_of_def findOne_Cons)
  qed
qed

lemma sessions_of_link_other:
  "p \<noteq> pid \<Longrightarrow>
   sessions_of (linkIdentityToMap_try hf now coll pid ch u conf) p = sessions_of coll p"
proof (induction coll)
  case Nil
  then show ?case
    by (simp add: linkIdentityToMap_try_def sessions_of_def findOne_def insertOne_def)
next
  case (Cons e es)
  show ?case
  proof (cases "pseudo_user_id e = pid")
    case True
    with Cons.prems show ?thesis
      by (simp add: linkIdentityToMap_try_def sessions_of_def findOne_Cons Let_def)
  next
    case False
    then show ?thesis
      using Cons by (simp add: link_try_Cons_other sessions_of_def findOne_Cons)
  qed
qed

lemma links_unique_link:
  "links_unique coll \<Longrightarrow> links_unique (linkIdentityToMap_try hf now coll pid ch u conf)"
proof (induction coll)
  case Nil
  then show ?case
    by (simp add: linkIdentityToMap_try_def findOne_def insertOne_def links_unique_def
        link_keys_def)
next
  case (Cons e es)
  show ?case
  proof (cases "pseudo_user_id e = pid")
    case True
    with Cons.prems show ?thesis
      by (simp add: linkIdentityToMap_try_def findOne_Cons Let_def links_unique_def
          link_keys_def link_sessions_upsert distinct_upsert)
  next
    case False
    then show ?thesis
      using Cons by (simp add: link_try_Cons_other links_unique_def)
  qed
qed

lemma links_of_sessions: "links_of coll p ch h = filter (same_pair ch h) (sessions_of coll p)"
  by (simp add: links_of_def sessions_of_def split: option.split)

lemma link_confidence_sessions:
  "link_confidence coll p c h =
     (case filter (same_pair c h) (sessions_of coll p) of
        [] \<Rightarrow> None | s # _ \<Rightarrow> Some (confidence s))"
  by (simp add: link_confidence_def links_of_sessions)

lemma confidence_raise: "confidence (raise_confidence c s) = max (confidence s) c"
  by (simp add: raise_confidence_def)

lemma link_confidence_try_same:
  "link_confidence (linkIdentityToMap_try hf now coll pid ch u conf) pid ch (hf u) =
     Some (case link_confidence coll pid ch (hf u) of None \<Rightarrow> conf | Some x \<Rightarrow> max x conf)"
  by (simp add: link_confidence_sessions sessions_of_link_same filter_upsert_same
      confidence_raise new_link_def split: list.split)

lemma links_of_try_other:
  "(p, c, h) \<noteq> (pid, ch, hf u) \<Longrightarrow>
   links_of (linkIdentityToMap_try hf now coll pid ch u conf) p c h = links_of coll p c h"
proof (cases "p = pid")
  case True
  assume "(p, c, h) \<noteq> (pid, ch, hf u)"
  with True have "(c, h) \<noteq> (ch, hf u)" by simp
  with True show ?thesis
    by (simp add: links_of_sessions sessions_of_link_same filter_upsert_other)
next
  case False
  then show ?thesis by (simp add: links_of_sessions sessions_of_link_other)
qed

lemma link_confidence_try_other:
  "(p, c, h) \<noteq> (pid, ch, hf u) \<Longrightarrow>
   link_confidence (linkIdentityToMap_try hf now coll pid ch u conf) p c h =
     link_confidence coll p c h"
  using links_of_try_other [of p c h pid ch hf u now coll conf]
  by (simp add: link_confidence_def)

lemma link_confidence_try_mono:
  assumes "link_confidence coll p c h = Some x"
  shows "\<exists>y. link_confidence (linkIdentityToMap_try hf now coll pid ch u conf) p c h = Some y \<and>
             x \<le> y"
proof (cases "(p, c, h) = (pid, ch, hf u)")
  case True
  with assms link_confidence_try_same [of hf now coll pid ch u conf] show ?thesis by simp
next
  case False
  with assms show ?thesis by (simp add: link_confidence_try_other)
qed

lemma sessions_of_distinct:
  "links_unique coll \<Longrightarrow>
   distinct (map (\<lambda>s. (channel s, channel_user_id s)) (sessions_of coll p))"
proof (cases "findOne p coll")
  case None
  then show ?thesis by (simp add: sessions_of_def)
next
  case (Some e)
  assume u: "links_unique coll"
  from Some have "e \<in> set coll" by (auto simp: findOne_def find_Some_iff)
  with u have "distinct (link_keys e)" by (simp add: links_unique_def list_all_iff)
  with Some show ?thesis by (simp add: sessions_of_def link_keys_def)
qed

lemma links_of_try_length:
  assumes "links_unique coll"
  shows "length (links_of (linkIdentityToMap_try hf now coll pid ch u conf) pid ch (hf u)) = 1"
proof -
  let ?coll' = "linkIdentityToMap_try hf now coll pid ch u conf"
  have "links_unique ?coll'" by (rule links_unique_link [OF assms])
  then have "length (links_of ?coll' pid ch (hf u)) \<le> 1"
    unfolding links_of_sessions by (intro filter_distinct_keys_le1 sessions_of_distinct)
  moreover have "links_of ?coll' pid ch (hf u) \<noteq> []"
    by (simp add: links_of_sessions sessions_of_link_same filter_upsert_same split: list.split)
  ultimately show ?thesis by (cases "links_of ?coll' pid ch (hf u)") simp_all
qed

text \<open>
  Claim C3, as stated, fails for the identity map as a whole: the operation looks only
  at the entry of the given pseudo user id, so linking a pair that is already linked
  under one pseudo user id under another one puts the pair into two entries.
\<close>

theorem pair_in_two_entries_counterexample:
  "links_unique [] \<and>
   pair_occurrences [] ''web'' (test_hash ''user123'') = 0 \<and>
   pair_occurrences
     (linkIdentityToMap test_hash 1735648393 False
        (linkIdentityToMap test_hash 1735648392 False [] ''0369C036-9C03-69C0-369C-0369C0369C03''
           ''web'' ''user123'' 0.7)
        ''69C0369C-0369-C036-9C03-69C0369C0369'' ''web'' ''user123'' 0.9)
     ''web'' (test_hash ''user123'') = 2"
  by (simp add: links_unique_def pair_occurrences_def linkIdentityToMap_def
      linkIdentityToMap_try_def findOne_def insertOne_def same_pair_def test_hash_def)

text \<open>
  Claim C3, amended. If no entry of the map links a pair twice, then after
  \<open>linkIdentityToMap\<close> no entry does; no link loses confidence; after a call that
  reaches the store the pair is linked exactly once under the given pseudo user id, with
  the larger of the old and the new confidence. Linking the same pair under the same
  pseudo user id with confidence 0.7 and then 0.9, the pair not linked there before,
  leaves exactly one link for it, with confidence 0.9. (The same pair may be linked
  under several pseudo user ids.)
\<close>

theorem link_keeps_links_unique_and_confidence:
  assumes "links_unique coll"
  shows "links_unique (linkIdentityToMap hf now fails coll pid ch u conf) \<and>
         (\<forall>p c h x. link_confidence coll p c h = Some x \<longrightarrow>
            (\<exists>y. link_confidence (linkIdentityToMap hf now fails coll pid ch u conf) p c h = Some y
                 \<and> x \<le> y)) \<and>
         (\<not> fails \<longrightarrow>
            length (links_of (linkIdentityToMap hf now fails coll pid ch u conf) pid ch (hf u)) = 1 \<and>
            link_confidence (linkIdentityToMap hf now fails coll pid ch u conf) pid ch (hf u) =
              Some (case link_confidence coll pid ch (hf u) of
                      None \<Rightarrow> conf | Some x \<Rightarrow> max x conf)) \<and>
         (link_confidence coll pid ch (hf u) = None \<longrightarrow>
            length (links_of
              (linkIdentityToMap hf now' False
                 (linkIdentityToMap hf now False coll pid ch u 0.7) pid ch u 0.9)
              pid ch (hf u)) = 1 \<and>
            link_confidence
              (linkIdentityToMap hf now' False
                 (linkIdentityToMap hf now False coll pid ch u 0.7) pid ch u 0.9)
              pid ch (hf u) = Some 0.9)"
proof (intro conjI allI impI)
  show "links_unique (linkIdentityToMap hf now fails coll pid ch u conf)"
    using assms by (simp add: linkIdentityToMap_def links_unique_link)
next
  fix p c h x
  assume "link_confidence coll p c h = Some x"
  then show "\<exists>y. link_confidence (linkIdentityToMap hf now fails coll pid ch u conf) p c h = Some y
                 \<and> x \<le> y"
    using link_confidence_try_mono [of coll p c h x hf now pid ch u conf]
    by (simp add: linkIdentityToMap_def)
next
  assume "\<not> fails"
  then show "length (links_of (linkIdentityToMap hf now fails coll pid ch u conf) pid ch (hf u)) = 1"
    by (simp add: linkIdentityToMap_def links_of_try_length [OF assms])
next
  assume "\<not> fails"
  then show "link_confidence (linkIdentityToMap hf now fails coll pid ch u conf) pid ch (hf u) =
              Some (case link_confidence coll pid ch (hf u) of
                      None \<Rightarrow> conf | Some x \<Rightarrow> max x conf)"
    by (simp add: linkIdentityToMap_def link_confidence_try_same)
next
  assume "link_confidence coll pid ch (hf u) = None"
  have "links_unique (linkIdentityToMap_try hf now coll pid ch u 0.7)"
    by (rule links_unique_link [OF assms])
  then show "length (links_of
              (linkIdentityToMap hf now' False
                 (linkIdentityToMap hf now False coll pid ch u 0.7) pid ch u 0.9)
              pid ch (hf u)) = 1"
    by (simp add: linkIdentityToMap_def links_of_try_length)
next
  assume "link_confidence coll pid ch (hf u) = None"
  then show "link_confidence
              (linkIdentityToMap hf now' False
                 (linkIdentityToMap hf now False coll pid ch u 0.7) pid ch u 0.9)
              pid ch (hf u) = Some 0.9"
    by (simp add: linkIdentityToMap_def link_confidence_try_same)
qed

theorem link_keeps_links_unique_and_confidence_witness:
  "links_unique [] \<and>
   link_confidence [] ''F29219AB-D41F'' ''web'' (test_hash ''user123'') = None \<and>
   linkIdentityToMap test_hash 1735648393 False
     (linkIdentityToMap test_hash 1735648392 False [] ''F29219AB-D41F'' ''web'' ''user123'' 0.7)
     ''F29219AB-D41F'' ''web'' ''user123'' 0.9 =
     [\<lparr>pseudo_user_id = ''F29219AB-D41F'',
       linked_sessions =
         [\<lparr>channel = ''web'', channel_user_id = ''hashed_user123'', confidence = 0.9\<rparr>],
       updated_at = 1735648393\<rparr>] \<and>
   length (links_of
     (linkIdentityToMap test_hash 1735648393 False
        (linkIdentityToMap test_hash 1735648392 False [] ''F29219AB-D41F'' ''web'' ''user123'' 0.7)
        ''F29219AB-D41F'' ''web'' ''user123'' 0.9)
     ''F29219AB-D41F'' ''web'' (test_hash ''user123'')) = 1 \<and>
   link_confidence
     (linkIdentityToMap test_hash 1735648393 False
        (linkIdentityToMap test_hash 1735648392 False [] ''F29219AB-D41F'' ''web'' ''user123'' 0.7)
        ''F29219AB-D41F'' ''web'' ''user123'' 0.9)
     ''F29219AB-D41F'' ''web'' (test_hash ''user123'') = Some 0.9"
proof -
  have u: "links_unique []" by (simp add: links_unique_def)
  have n: "link_confidence [] ''F29219AB-D41F'' ''web'' (test_hash ''user123'') = None"
    by (simp add: link_confidence_def links_of_def findOne_def)
  have v: "linkIdentityToMap test_hash 1735648393 False
     (linkIdentityToMap test_hash 1735648392 False [] ''F29219AB-D41F'' ''web'' ''user123'' 0.7)
     ''F29219AB-D41F'' ''web'' ''user123'' 0.9 =
     [\<lparr>pseudo_user_id = ''F29219AB-D41F'',
       linked_sessions =
         [\<lparr>channel = ''web'', channel_user_id = ''hashed_user123'', confidence = 0.9\<rparr>],
       updated_at = 1735648393\<rparr>]"
    by (simp add: linkIdentityToMap_def linkIdentityToMap_try_def findOne_def insertOne_def
        link_sessions_def test_hash_def)
  note th = link_keeps_links_unique_and_confidence [OF u, of test_hash 1735648392 False
      "''F29219AB-D41F''" "''web''" "''user123''" "0.7" 1735648393,
      THEN conjunct2, THEN conjunct2, THEN conjunct2, rule_format, OF n]
  from u n v th show ?thesis by blast
qed

section \<open>Properties of the urgency and criticality scores\<close>








lemma urgency_level_of_clamped:
  "0 \<le> x \<Longrightarrow> x \<le> 1 \<Longrightarrow> min 1 (max 0 x) = x"
  for x :: real
  by simp
















section \<open>Error handling of the memory stores\<close>

lemma try_catch_Inl: "try_catch (Inl e) handler = handler e"
  by (simp add: try_catch_def)

lemma try_catch_total:
  "(\<And>e. \<exists>r. handler e = Inr r) \<Longrightarrow> \<exists>r. try_catch body handler = Inr r"
  by (cases body) (simp_all add: try_catch_def)

text \<open>
  Claim C10. The three reads never throw: when the store fails (acquiring the client or
  the operation itself throws), \<open>retrieveShortTermMemory\<close> returns \<open>null\<close> and the two
  vector queries return the empty list. The three writes of the memory stores throw a
  \<open>StorageError\<close> whose \<open>storageType\<close> names the store that failed: \<open>redis\<close> for the
  session write and the vector upsert, \<open>qdrant\<close> for the long-term insert.
\<close>

theorem reads_absorb_writes_propagate:
  "(\<exists>r. retrieveShortTermMemory getRedisClient parse sessionId = Inr r) \<and>
   (\<exists>r. retrieveRelevantVectors getVectorIndex queryVector limit = Inr r) \<and>
   (\<exists>r. retrieveLongTermMemory getQdrantClient queryVector limit = Inr r) \<and>
   (and_then getRedisClient (\<lambda>client. redis_get client sessionId) = Inl e1 \<longrightarrow>
      retrieveShortTermMemory getRedisClient parse sessionId = Inr None) \<and>
   (and_then getVectorIndex (\<lambda>vectorIndex. vector_query vectorIndex queryVector limit) = Inl e2 \<longrightarrow>
      retrieveRelevantVectors getVectorIndex queryVector limit = Inr []) \<and>
   (and_then getQdrantClient (\<lambda>client. qdrant_search client ''long_memory'' queryVector limit)
      = Inl e3 \<longrightarrow>
      retrieveLongTermMemory getQdrantClient queryVector limit = Inr []) \<and>
   (and_then getRedisClient
      (\<lambda>client. redis_set client sessionId (stringify sessionData) REDIS_TTL_SECONDS) = Inl e4 \<longrightarrow>
      storeShortTermMemory getRedisClient stringify sessionId sessionData =
        Inl (StorageError (''Failed to store short-term memory: '' @ error_text e4) Redis)) \<and>
   (and_then getVectorIndex
      (\<lambda>vectorIndex. vector_upsert vectorIndex (vector_upsert_request vectorData)) = Inl e5 \<longrightarrow>
      storeShortTermVector getVectorIndex vectorData =
        Inl (StorageError (''Failed to store short-term vector: '' @ error_text e5) Redis)) \<and>
   (and_then getQdrantClient
      (\<lambda>client. qdrant_upsert client ''long_memory''
                   [long_term_point show_number pseudoUserId memoryPoint]) = Inl e6 \<longrightarrow>
      storeLongTermMemory getQdrantClient show_number pseudoUserId memoryPoint =
        Inl (StorageError (''Failed to store long-term memory: '' @ error_text e6) Qdrant))"
proof (intro conjI impI)
  show "\<exists>r. retrieveShortTermMemory getRedisClient parse sessionId = Inr r"
    unfolding retrieveShortTermMemory_def by (rule try_catch_total) simp
  show "\<exists>r. retrieveRelevantVectors getVectorIndex queryVector limit = Inr r"
    unfolding retrieveRelevantVectors_def by (rule try_catch_total) simp
  show "\<exists>r. retrieveLongTermMemory getQdrantClient queryVector limit = Inr r"
    unfolding retrieveLongTermMemory_def by (rule try_catch_total) simp
next
  assume "and_then getRedisClient (\<lambda>client. redis_get client sessionId) = Inl e1"
  then show "retrieveShortTermMemory getRedisClient parse sessionId = Inr None"
    by (cases getRedisClient)
       (simp_all add: retrieveShortTermMemory_def and_then_def try_catch_def Let_def)
next
  assume "and_then getVectorIndex (\<lambda>vectorIndex. vector_query vectorIndex queryVector limit)
            = Inl e2"
  then show "retrieveRelevantVectors getVectorIndex queryVector limit = Inr []"
    by (cases getVectorIndex)
       (simp_all add: retrieveRelevantVectors_def and_then_def try_catch_def)
next
  assume "and_then getQdrantClient
            (\<lambda>client. qdrant_search client ''long_memory'' queryVector limit) = Inl e3"
  then show "retrieveLongTermMemory getQdrantClient queryVector limit = Inr []"
    by (cases getQdrantClient)
       (simp_all add: retrieveLongTermMemory_def and_then_def try_catch_def Let_def)
next
  assume "and_then getRedisClient
      (\<lambda>client. redis_set client sessionId (stringify sessionData) REDIS_TTL_SECONDS) = Inl e4"
  then show "storeShortTermMemory getRedisClient stringify sessionId sessionData =
        Inl (StorageError (''Failed to store short-term memory: '' @ error_text e4) Redis)"
    by (simp add: storeShortTermMemory_def Let_def try_catch_Inl)
next
  assume "and_then getVectorIndex
      (\<lambda>vectorIndex. vector_upsert vectorIndex (vector_upsert_request vectorData)) = Inl e5"
  then show "storeShortTermVector getVectorIndex vectorData =
        Inl (StorageError (''Failed to store short-term vector: '' @ error_text e5) Redis)"
    by (simp add: storeShortTermVector_def try_catch_Inl)
next
  assume "and_then getQdrantClient
      (\<lambda>client. qdrant_upsert client ''long_memory''
                   [long_term_point show_number pseudoUserId memoryPoint]) = Inl e6"
  then show "storeLongTermMemory getQdrantClient show_number pseudoUserId memoryPoint =
        Inl (StorageError (''Failed to store long-term memory: '' @ error_text e6) Qdrant)"
    by (simp add: storeLongTermMemory_def Let_def try_catch_Inl)
qed

theorem reads_absorb_writes_propagate_witness:
  "and_then (Inr failing_redis) (\<lambda>client. redis_get client ''session:web:123'')
     = Inl (NonError ''timeout'') \<and>
   retrieveShortTermMemory (Inr failing_redis) no_parse ''session:web:123'' = Inr None \<and>
   retrieveRelevantVectors (Inr failing_vector_index) [1, 0] 10 = Inr [] \<and>
   retrieveLongTermMemory (Inl connection_refused) [1, 0] 10 = Inr [] \<and>
   storeShortTermMemory (Inr failing_redis) (constant_text ''{}'') ''session:web:123''
     example_session =
     Inl (StorageError ''Failed to store short-term memory: timeout'' Redis) \<and>
   storeShortTermVector (Inr failing_vector_index) example_vector_point =
     Inl (StorageError ''Failed to store short-term vector: connect ECONNREFUSED'' Redis) \<and>
   storeLongTermMemory (Inl connection_refused) (constant_text ''1735000000'')
     ''F29219AB-D41F'' weather_memory =
     Inl (StorageError ''Failed to store long-term memory: connect ECONNREFUSED'' Qdrant)"
proof -
  have h1: "and_then (Inr failing_redis) (\<lambda>client. redis_get client ''session:web:123'')
              = Inl (NonError ''timeout'')"
    by (simp add: and_then_def failing_redis_def)
  have h2: "and_then (Inr failing_vector_index)
              (\<lambda>vectorIndex. vector_query vectorIndex [1, 0] 10) = Inl connection_refused"
    by (simp add: and_then_def failing_vector_index_def)
  have h3: "and_then (Inl connection_refused)
              (\<lambda>client. qdrant_search client ''long_memory'' [1, 0] 10) = Inl connection_refused"
    by (simp add: and_then_def)
  have h4: "and_then (Inr failing_redis)
              (\<lambda>client. redis_set client ''session:web:123''
                          (constant_text ''{}'' example_session) REDIS_TTL_SECONDS)
              = Inl (NonError ''timeout'')"
    by (simp add: and_then_def failing_redis_def)
  have h5: "and_then (Inr failing_vector_index)
              (\<lambda>vectorIndex. vector_upsert vectorIndex (vector_upsert_request example_vector_point))
              = Inl connection_refused"
    by (simp add: and_then_def failing_vector_index_def)
  have h6: "and_then (Inl connection_refused)
              (\<lambda>client. qdrant_upsert client ''long_memory''
                 [long_term_point (constant_text ''1735000000'') ''F29219AB-D41F'' weather_memory])
              = Inl connection_refused"
    by (simp add: and_then_def)
  note th = reads_absorb_writes_propagate [of "Inr failing_redis" no_parse "''session:web:123''"
      "Inr failing_vector_index" "[1, 0]" 10 "Inl connection_refused" "NonError ''timeout''"
      connection_refused connection_refused "constant_text ''{}''" example_session
      "NonError ''timeout''" example_vector_point connection_refused
      "constant_text ''1735000000''" "''F29219AB-D41F''" weather_memory connection_refused]
  note r1 = th [THEN conjunct2, THEN conjunct2, THEN conjunct2, THEN conjunct1, rule_format,
      OF h1]
  note r2 = th [THEN conjunct2, THEN conjunct2, THEN conjunct2, THEN conjunct2, THEN conjunct1,
      rule_format, OF h2]
  note r3 = th [THEN conjunct2, THEN conjunct2, THEN conjunct2, THEN conjunct2, THEN conjunct2,
      THEN conjunct1, rule_format, OF h3]
  note r4 = th [THEN conjunct2, THEN conjunct2, THEN conjunct2, THEN conjunct2, THEN conjunct2,
      THEN conjunct2, THEN conjunct1, rule_format, OF h4]
  note r5 = th [THEN conjunct2, THEN conjunct2, THEN conjunct2, THEN conjunct2, THEN conjunct2,
      THEN conjunct2, THEN conjunct2, THEN conjunct1, rule_format, OF h5]
  note r6 = th [THEN conjunct2, THEN conjunct2, THEN conjunct2, THEN conjunct2, THEN conjunct2,
      THEN conjunct2, THEN conjunct2, THEN conjunct2, rule_format, OF h6]
  from h1 r1 r2 r3 r4 r5 r6 show ?thesis by (simp add: connection_refused_def)
qed

section \<open>Order of the reads\<close>

text \<open>
  Claim C2 on the store route: every read is awaited before the next one is issued, so
  the three reads do not overlap. \<open>retrieveUnifiedMemory\<close> issues all three and then
  waits for all of them.
\<close>

theorem store_route_reads_do_not_overlap:
  "run_events store_route_reads =
     [Issued ShortTermGet, Completed ShortTermGet,
      Issued ShortTermVectorQuery, Completed ShortTermVectorQuery,
      Issued LongTermVectorQuery, Completed LongTermVectorQuery] \<and>
   \<not> reads_overlap (run_events store_route_reads) \<and>
   reads_overlap (run_events retrieveUnifiedMemory_reads)"
  by (simp add: run_events_def store_route_reads_def retrieveUnifiedMemory_reads_def
      reads_overlap_def all_reads_def is_issue_def)

end
